theory Spec2Isabelle
  imports Complex_Main "HOL-Library.Word"
begin

unbundle bit_operations_syntax

section \<open>JavaScript values at the HTTP boundary\<close>

text \<open>
  The handlers read \<open>req.body\<close>, which Express types as \<open>any\<close>: whatever the body parser
  produced. The model keeps the values a parsed body can hold, together with \<open>undefined\<close>
  (a body that was never parsed, a property that is not there). Numbers are IEEE doubles; the
  handlers only ever test them for truthiness, so a number is kept as one of the classes
  that ToBoolean distinguishes, a finite one with its exact value (\<open>Finite 0\<close> is \<open>+0\<close>).
\<close>

datatype jsnumber = NaN | PosInfinity | NegInfinity | NegZero | Finite rat

datatype jsval =
    JUndefined
  | JNull
  | JBool bool
  | JNum jsnumber
  | JStr string
  | JArr "jsval list"
  | JObj "(string \<times> jsval) list"

text \<open>ToBoolean of ECMAScript: what \<open>!v\<close> and \<open>v || d\<close> look at.\<close>

fun truthy :: "jsval \<Rightarrow> bool" where
  "truthy JUndefined = False"
| "truthy JNull = False"
| "truthy (JBool b) = b"
| "truthy (JNum NaN) = False"
| "truthy (JNum NegZero) = False"
| "truthy (JNum (Finite q)) = (q \<noteq> 0)"
| "truthy (JNum PosInfinity) = True"
| "truthy (JNum NegInfinity) = True"
| "truthy (JStr s) = (s \<noteq> [])"
| "truthy (JArr xs) = True"
| "truthy (JObj kvs) = True"

text \<open>\<open>a || b\<close> on values.\<close>

definition js_or :: "jsval \<Rightarrow> jsval \<Rightarrow> jsval" where
  "js_or a b = (if truthy a then a else b)"

text \<open>
  What a \<open>throw\<close> carries: a \<open>TypeError\<close> of the runtime, a system error of \<open>fs\<close>
  (code and path), a failure of the Groq SDK call (its detail), and \<open>new Error(msg)\<close>.
\<close>

datatype exn =
    TypeError string
  | SystemError string string
  | APIError string
  | Error string

text \<open>
  Reading the property \<open>message\<close> or \<open>prompt\<close> of a value, as \<open>const { message } = req.body\<close>
  and \<open>req.body.prompt\<close> do: it throws on \<open>undefined\<close> and \<open>null\<close>; an object (the
  list of its own properties, each key once) gives the property or \<open>undefined\<close>; arrays,
  strings, numbers and booleans have neither of the two properties.
\<close>

fun get_prop :: "jsval \<Rightarrow> string \<Rightarrow> exn + jsval" where
  "get_prop JUndefined k = Inl (TypeError (''Cannot read properties of undefined (reading '' @ k @ '')''))"
| "get_prop JNull k = Inl (TypeError (''Cannot read properties of null (reading '' @ k @ '')''))"
| "get_prop (JObj kvs) k = Inr (case map_of kvs k of None \<Rightarrow> JUndefined | Some v \<Rightarrow> v)"
| "get_prop v k = Inr JUndefined"

section \<open>The inference endpoint\<close>

text \<open>
  The request handed to \<open>groq.chat.completions.create\<close>. The content of a message is the
  prompt itself (text client) or a list of parts (vision client); the prompt is whatever
  value the route passed, the annotation \<open>string\<close> being erased at run time.
\<close>

datatype content_part =
    TextPart (part_text: jsval)
  | ImageUrlPart (url: string)

datatype message_content =
    Plain jsval
  | Parts "content_part list"

datatype chat_message = ChatMessage (role: string) (content: message_content)

datatype chat_request =
  ChatRequest (messages: "chat_message list") (model: string)
    (temperature: rat) (max_tokens: nat)

text \<open>
  The reply of the endpoint, as far as the clients read it: \<open>choices[0]?.message?.content\<close>.
  A choice may lack its message and a message its content (\<open>null\<close> or \<open>undefined\<close>);
  the SDK declares the content \<open>string | null\<close>.
\<close>

datatype choice_message = ChoiceMessage (msg_content: "string option")

datatype choice = Choice (choice_msg: "choice_message option")

datatype completion = Completion (choices: "choice list")

section \<open>Requests, responses, the world\<close>

type_synonym byte = "8 word"

datatype multer_file = MulterFile (path: string)

datatype request = Request (body: jsval) (req_file: "multer_file option")

datatype response = Response (status: nat) (json: jsval)

text \<open>What a handler does to the outside, in order.\<close>

datatype event =
    GroqCreate chat_request
  | ReadFileSync string
  | Unlink string
  | ConsoleError string exn

text \<open>
  The state a handler runs in: the files under their paths, and the trace of what was done.
\<close>

record state =
  files :: "string \<rightharpoonup> byte list"
  trace :: "event list"

text \<open>
  What the handlers cannot decide: how the endpoint answers a request (a completion, or any
  failure of the call), and the time \<open>new Date().toISOString()\<close> reads.
\<close>

record env =
  endpoint :: "chat_request \<Rightarrow> exn + completion"
  now :: string

definition emit :: "event \<Rightarrow> state \<Rightarrow> state" where
  "emit e s = s\<lparr>trace := trace s @ [e]\<rparr>"

definition console_error :: "string \<Rightarrow> exn \<Rightarrow> state \<Rightarrow> state" where
  "console_error label e s = emit (ConsoleError label e) s"

definition create :: "env \<Rightarrow> chat_request \<Rightarrow> state \<Rightarrow> (exn + completion) \<times> state" where
  "create env req s = (endpoint env req, emit (GroqCreate req) s)"

text \<open>\<open>completion.choices[0]?.message?.content\<close>: \<open>None\<close> is \<open>undefined\<close> or \<open>null\<close>.\<close>

definition first_content :: "completion \<Rightarrow> string option" where
  "first_content c =
     (case choices c of
        [] \<Rightarrow> None
      | ch # _ \<Rightarrow> (case choice_msg ch of None \<Rightarrow> None | Some m \<Rightarrow> msg_content m))"

text \<open>\<open>x || placeholder\<close> for \<open>x\<close> a string, \<open>null\<close> or \<open>undefined\<close>.\<close>

definition or_else :: "string option \<Rightarrow> string \<Rightarrow> string" where
  "or_else x d = (case x of None \<Rightarrow> d | Some t \<Rightarrow> if t \<noteq> [] then t else d)"

section \<open>groq.service: the text client\<close>

definition cross_mark :: string where
  "cross_mark = [CHR 0xE2, CHR 0x9D, CHR 0x8C]"

definition text_request :: "jsval \<Rightarrow> chat_request" where
  "text_request prompt =
     ChatRequest [ChatMessage ''user'' (Plain prompt)] ''llama-3.3-70b-versatile'' (7 / 10) 1024"

definition generateGroqResponse :: "env \<Rightarrow> jsval \<Rightarrow> state \<Rightarrow> (exn + string) \<times> state" where
  "generateGroqResponse env prompt s =
     (case create env (text_request prompt) s of
        (Inr completion, s1) \<Rightarrow>
          (Inr (or_else (first_content completion) ''No response generated.''), s1)
      | (Inl error, s1) \<Rightarrow>
          (Inl (Error ''Failed to generate AI response''),
           console_error (cross_mark @ '' Groq API Error:'') error s1))"

section \<open>chat.routes: POST /message\<close>

definition post_message :: "env \<Rightarrow> request \<Rightarrow> state \<Rightarrow> response \<times> state" where
  "post_message env req s =
     (case
        (case get_prop (body req) ''message'' of
           Inl error \<Rightarrow> (Inl error, s)
         | Inr message \<Rightarrow>
             if \<not> truthy message
             then (Inr (Response 400 (JObj [(''error'', JStr ''Message is required'')])), s)
             else
               (case generateGroqResponse env message s of
                  (Inl error, s1) \<Rightarrow> (Inl error, s1)
                | (Inr reply, s1) \<Rightarrow>
                    (Inr (Response 200
                            (JObj [(''reply'', JStr reply), (''timestamp'', JStr (now env))])),
                     s1)))
      of
        (Inr res, s1) \<Rightarrow> (res, s1)
      | (Inl error, s1) \<Rightarrow>
          (Response 500 (JObj [(''error'', JStr ''Failed to process your message'')]),
           console_error ''Chat error:'' error s1))"

section \<open>vision.service: the encoder and the vision client\<close>

text \<open>
  \<open>Buffer.toString('base64')\<close> of Node: the alphabet of RFC 4648, three bytes to four
  characters, the last group padded with \<open>=\<close>. A character is looked up by a group of
  six bits; the mask in \<open>b64_char\<close> says so for any byte.
\<close>

definition b64_alphabet :: string where
  "b64_alphabet = ''ABCDEFGHIJKLMNOPQRSTUVWXYZabcdefghijklmnopqrstuvwxyz0123456789+/''"

definition b64_char :: "byte \<Rightarrow> char" where
  "b64_char w = b64_alphabet ! unat (w AND 63)"

fun base64 :: "byte list \<Rightarrow> string" where
  "base64 (a # b # c # rest) =
     [b64_char (drop_bit 2 a),
      b64_char (push_bit 4 (a AND 3) OR drop_bit 4 b),
      b64_char (push_bit 2 (b AND 15) OR drop_bit 6 c),
      b64_char (c AND 63)] @ base64 rest"
| "base64 [a, b] =
     [b64_char (drop_bit 2 a),
      b64_char (push_bit 4 (a AND 3) OR drop_bit 4 b),
      b64_char (push_bit 2 (b AND 15)),
      CHR ''='']"
| "base64 [a] =
     [b64_char (drop_bit 2 a),
      b64_char (push_bit 4 (a AND 3)),
      CHR ''='', CHR ''='']"
| "base64 [] = []"

text \<open>\<open>fs.readFileSync(filePath)\<close>: the bytes of the file, or the error of the file system.\<close>

definition readFileSync :: "string \<Rightarrow> state \<Rightarrow> (exn + byte list) \<times> state" where
  "readFileSync p s =
     ((case files s p of
         None \<Rightarrow> Inl (SystemError ''ENOENT'' p)
       | Some bytes \<Rightarrow> Inr bytes),
      emit (ReadFileSync p) s)"

definition encodeImageToBase64 :: "string \<Rightarrow> state \<Rightarrow> (exn + string) \<times> state" where
  "encodeImageToBase64 filePath s =
     (case readFileSync filePath s of
        (Inl error, s1) \<Rightarrow> (Inl error, s1)
      | (Inr imageFile, s1) \<Rightarrow> (Inr (base64 imageFile), s1))"

definition default_prompt :: string where
  "default_prompt = ''What's in this image?''"

definition vision_request :: "string \<Rightarrow> jsval \<Rightarrow> chat_request" where
  "vision_request imageBase64 prompt =
     ChatRequest
       [ChatMessage ''user''
          (Parts [TextPart prompt,
                  ImageUrlPart (''data:image/jpeg;base64,'' @ imageBase64)])]
       ''meta-llama/llama-4-scout-17b-16e-instruct'' (7 / 10) 1024"

text \<open>
  The parameter \<open>prompt: string = "What's in this image?"\<close>: the default applies when the
  argument is \<open>undefined\<close>.
\<close>

definition prompt_param :: "jsval \<Rightarrow> jsval" where
  "prompt_param arg = (if arg = JUndefined then JStr default_prompt else arg)"

definition analyzeImage :: "env \<Rightarrow> string \<Rightarrow> jsval \<Rightarrow> state \<Rightarrow> (exn + string) \<times> state" where
  "analyzeImage env imageBase64 arg s =
     (let prompt = prompt_param arg in
      case create env (vision_request imageBase64 prompt) s of
        (Inr completion, s1) \<Rightarrow>
          (Inr (or_else (first_content completion) ''No analysis generated.''), s1)
      | (Inl error, s1) \<Rightarrow>
          (Inl (Error ''Failed to analyze image''),
           console_error (cross_mark @ '' Vision API Error:'') error s1))"

section \<open>vision.routes: POST /analyze\<close>

text \<open>
  \<open>fs.unlink(path, callback)\<close>: the file is removed, or the callback gets the error. The
  route does not wait for the callback; the state returned is the one after it has run.
\<close>

definition unlink :: "string \<Rightarrow> state \<Rightarrow> exn option \<times> state" where
  "unlink p s =
     (case files s p of
        None \<Rightarrow> (Some (SystemError ''ENOENT'' p), emit (Unlink p) s)
      | Some bytes \<Rightarrow> (None, emit (Unlink p) (s\<lparr>files := (files s)(p := None)\<rparr>)))"

definition post_analyze :: "env \<Rightarrow> request \<Rightarrow> state \<Rightarrow> response \<times> state" where
  "post_analyze env req s =
     (case
        (case req_file req of
           None \<Rightarrow> (Inr (Response 400 (JObj [(''error'', JStr ''No image uploaded'')])), s)
         | Some f \<Rightarrow>
             (case get_prop (body req) ''prompt'' of
                Inl error \<Rightarrow> (Inl error, s)
              | Inr p \<Rightarrow>
                  (let prompt = js_or p (JStr default_prompt) in
                   case encodeImageToBase64 (path f) s of
                     (Inl error, s1) \<Rightarrow> (Inl error, s1)
                   | (Inr imageBase64, s1) \<Rightarrow>
                       (case analyzeImage env imageBase64 prompt s1 of
                          (Inl error, s2) \<Rightarrow> (Inl error, s2)
                        | (Inr analysis, s2) \<Rightarrow>
                            (case unlink (path f) s2 of
                               (err, s3) \<Rightarrow>
                                 (Inr (Response 200
                                         (JObj [(''analysis'', JStr analysis),
                                                (''timestamp'', JStr (now env))])),
                                  (case err of
                                     None \<Rightarrow> s3
                                   | Some e \<Rightarrow>
                                       console_error ''Failed to delete temp file:'' e s3)))))))
      of
        (Inr res, s1) \<Rightarrow> (res, s1)
      | (Inl error, s1) \<Rightarrow>
          (Response 500 (JObj [(''error'', JStr ''Failed to analyze image'')]),
           console_error ''Vision route error:'' error s1))"

section \<open>Reading a trace\<close>

text \<open>
  The calls of the model client, the reads of the encoder and the deletions that a trace
  holds; the prompts and the image references of the requests that were sent.
\<close>

fun is_groq_call :: "event \<Rightarrow> bool" where
  "is_groq_call (GroqCreate r) = True"
| "is_groq_call e = False"

fun is_read :: "event \<Rightarrow> bool" where
  "is_read (ReadFileSync p) = True"
| "is_read e = False"

fun is_unlink :: "event \<Rightarrow> bool" where
  "is_unlink (Unlink p) = True"
| "is_unlink e = False"

definition groq_calls :: "state \<Rightarrow> event list" where
  "groq_calls s = filter is_groq_call (trace s)"

definition encoder_reads :: "state \<Rightarrow> event list" where
  "encoder_reads s = filter is_read (trace s)"

definition unlinks :: "state \<Rightarrow> event list" where
  "unlinks s = filter is_unlink (trace s)"

fun part_prompts :: "content_part \<Rightarrow> jsval list" where
  "part_prompts (TextPart t) = [t]"
| "part_prompts (ImageUrlPart u) = []"

fun part_image_urls :: "content_part \<Rightarrow> string list" where
  "part_image_urls (TextPart t) = []"
| "part_image_urls (ImageUrlPart u) = [u]"

fun content_prompts :: "message_content \<Rightarrow> jsval list" where
  "content_prompts (Plain v) = [v]"
| "content_prompts (Parts ps) = concat (map part_prompts ps)"

fun content_image_urls :: "message_content \<Rightarrow> string list" where
  "content_image_urls (Plain v) = []"
| "content_image_urls (Parts ps) = concat (map part_image_urls ps)"

definition prompts :: "chat_request \<Rightarrow> jsval list" where
  "prompts r = concat (map (content_prompts \<circ> content) (messages r))"

definition image_urls :: "chat_request \<Rightarrow> string list" where
  "image_urls r = concat (map (content_image_urls \<circ> content) (messages r))"

fun event_prompts :: "event \<Rightarrow> jsval list" where
  "event_prompts (GroqCreate r) = prompts r"
| "event_prompts e = []"

fun event_image_urls :: "event \<Rightarrow> string list" where
  "event_image_urls (GroqCreate r) = image_urls r"
| "event_image_urls e = []"

definition sent_prompts :: "state \<Rightarrow> jsval list" where
  "sent_prompts s = concat (map event_prompts (trace s))"

definition sent_image_urls :: "state \<Rightarrow> string list" where
  "sent_image_urls s = concat (map event_image_urls (trace s))"

section \<open>The words of the specification\<close>

text \<open>
  A reply of the endpoint with no candidate content: an empty list of choices, or a first
  choice without a message or whose message has no content.
\<close>

definition no_candidate_content :: "completion \<Rightarrow> bool" where
  "no_candidate_content c =
     (case choices c of
        [] \<Rightarrow> True
      | ch # rest \<Rightarrow> (case choice_msg ch of None \<Rightarrow> True | Some m \<Rightarrow> msg_content m = None))"

text \<open>
  The message field of a request is absent: the body has no such property, or there is no
  body to hold one (\<open>req.body\<close> is \<open>undefined\<close> when no parser filled it).
\<close>

definition message_absent :: "request \<Rightarrow> bool" where
  "message_absent req =
     (case get_prop (body req) ''message'' of Inl e \<Rightarrow> True | Inr v \<Rightarrow> v = JUndefined)"

text \<open>A blank string: nothing in it but white space (the empty string is blank).\<close>

definition is_space :: "char \<Rightarrow> bool" where
  "is_space c = (c \<in> set [CHR '' '', CHR 0x09, CHR 0x0A, CHR 0x0B, CHR 0x0C, CHR 0x0D])"

definition blank :: "string \<Rightarrow> bool" where
  "blank t = list_all is_space t"

section \<open>Inputs used in the examples\<close>

text \<open>
  A clock reading; an endpoint that answers with no choices, one whose first choice has the
  empty string as content, and one that refuses the call; the first bytes of a PNG file
  stored under the path multer gave it; a request with that upload attached.
\<close>

abbreviation stamp :: string where
  "stamp \<equiv> ''2025-06-01T12:00:00.000Z''"

abbreviation env_empty :: env where
  "env_empty \<equiv> \<lparr>endpoint = (\<lambda>r. Inr (Completion [])), now = stamp\<rparr>"

abbreviation env_blank_reply :: env where
  "env_blank_reply \<equiv>
     \<lparr>endpoint = (\<lambda>r. Inr (Completion [Choice (Some (ChoiceMessage (Some [])))])), now = stamp\<rparr>"

abbreviation env_down :: env where
  "env_down \<equiv> \<lparr>endpoint = (\<lambda>r. Inl (APIError ''401 Invalid API Key'')), now = stamp\<rparr>"

abbreviation png_bytes :: "byte list" where
  "png_bytes \<equiv> [0x89, 0x50, 0x4E, 0x47, 0x0D, 0x0A, 0x1A, 0x0A]"

abbreviation disk :: state where
  "disk \<equiv> \<lparr>files = [''uploads/3f2a'' \<mapsto> png_bytes], trace = []\<rparr>"

abbreviation no_disk :: state where
  "no_disk \<equiv> \<lparr>files = Map.empty, trace = []\<rparr>"

abbreviation upload_req :: "jsval \<Rightarrow> request" where
  "upload_req b \<equiv> Request b (Some (MulterFile ''uploads/3f2a''))"

section \<open>What each path of the code does\<close>

lemma files_emit [simp]: "files (emit e s) = files s"
  by (simp add: emit_def)

lemma trace_emit [simp]: "trace (emit e s) = trace s @ [e]"
  by (simp add: emit_def)

lemma files_console_error [simp]: "files (console_error l e s) = files s"
  by (simp add: console_error_def)

lemma trace_console_error [simp]: "trace (console_error l e s) = trace s @ [ConsoleError l e]"
  by (simp add: console_error_def)

lemma prompts_text_request [simp]: "prompts (text_request p) = [p]"
  by (simp add: prompts_def text_request_def)

lemma prompts_vision_request [simp]: "prompts (vision_request b p) = [p]"
  by (simp add: prompts_def vision_request_def)

lemma image_urls_vision_request [simp]:
  "image_urls (vision_request b p) = [''data:image/jpeg;base64,'' @ b]"
  by (simp add: image_urls_def vision_request_def)

lemma falsy_iff:
  "(\<not> truthy m) =
     (m \<in> {JUndefined, JNull, JStr [], JBool False, JNum NaN, JNum NegZero, JNum (Finite 0)})"
  by (cases m rule: truthy.cases) auto

lemma get_prop_Inr_iff: "(\<exists>v. get_prop b k = Inr v) = (b \<noteq> JUndefined \<and> b \<noteq> JNull)"
  by (cases b) simp_all

lemma js_or_truthy: "truthy (js_or p (JStr default_prompt))"
  by (simp add: js_or_def default_prompt_def)

lemma prompt_param_js_or [simp]:
  "prompt_param (js_or p (JStr default_prompt)) = js_or p (JStr default_prompt)"
  using js_or_truthy [of p] by (auto simp: prompt_param_def)

lemma or_else_nonempty: "d \<noteq> [] \<Longrightarrow> or_else x d \<noteq> []"
  by (simp add: or_else_def split: option.splits)

lemma generateGroqResponse_Inl:
  "endpoint env (text_request p) = Inl e \<Longrightarrow>
   generateGroqResponse env p s =
     (Inl (Error ''Failed to generate AI response''),
      console_error (cross_mark @ '' Groq API Error:'') e (emit (GroqCreate (text_request p)) s))"
  by (simp add: generateGroqResponse_def create_def)

lemma generateGroqResponse_Inr:
  "endpoint env (text_request p) = Inr c \<Longrightarrow>
   generateGroqResponse env p s =
     (Inr (or_else (first_content c) ''No response generated.''),
      emit (GroqCreate (text_request p)) s)"
  by (simp add: generateGroqResponse_def create_def)

lemma analyzeImage_Inl:
  "endpoint env (vision_request b (prompt_param p)) = Inl e \<Longrightarrow>
   analyzeImage env b p s =
     (Inl (Error ''Failed to analyze image''),
      console_error (cross_mark @ '' Vision API Error:'') e
        (emit (GroqCreate (vision_request b (prompt_param p))) s))"
  by (simp add: analyzeImage_def create_def Let_def)

lemma analyzeImage_Inr:
  "endpoint env (vision_request b (prompt_param p)) = Inr c \<Longrightarrow>
   analyzeImage env b p s =
     (Inr (or_else (first_content c) ''No analysis generated.''),
      emit (GroqCreate (vision_request b (prompt_param p))) s)"
  by (simp add: analyzeImage_def create_def Let_def)

lemma encodeImageToBase64_Some:
  "files s p = Some bytes \<Longrightarrow>
   encodeImageToBase64 p s = (Inr (base64 bytes), emit (ReadFileSync p) s)"
  by (simp add: encodeImageToBase64_def readFileSync_def)

lemma encodeImageToBase64_None:
  "files s p = None \<Longrightarrow>
   encodeImageToBase64 p s = (Inl (SystemError ''ENOENT'' p), emit (ReadFileSync p) s)"
  by (simp add: encodeImageToBase64_def readFileSync_def)

lemma unlink_Some:
  "files s p = Some bytes \<Longrightarrow>
   unlink p s = (None, emit (Unlink p) (s\<lparr>files := (files s)(p := None)\<rparr>))"
  by (simp add: unlink_def)

lemma post_message_throw:
  "get_prop (body req) ''message'' = Inl e \<Longrightarrow>
   post_message env req s =
     (Response 500 (JObj [(''error'', JStr ''Failed to process your message'')]),
      console_error ''Chat error:'' e s)"
  by (simp add: post_message_def)

lemma post_message_reject:
  "get_prop (body req) ''message'' = Inr m \<Longrightarrow> \<not> truthy m \<Longrightarrow>
   post_message env req s =
     (Response 400 (JObj [(''error'', JStr ''Message is required'')]), s)"
  by (simp add: post_message_def)

lemma post_message_fails:
  "get_prop (body req) ''message'' = Inr m \<Longrightarrow> truthy m \<Longrightarrow>
   endpoint env (text_request m) = Inl e \<Longrightarrow>
   post_message env req s =
     (Response 500 (JObj [(''error'', JStr ''Failed to process your message'')]),
      console_error ''Chat error:'' (Error ''Failed to generate AI response'')
        (console_error (cross_mark @ '' Groq API Error:'') e
           (emit (GroqCreate (text_request m)) s)))"
  by (simp add: post_message_def generateGroqResponse_Inl)

lemma post_message_success:
  "get_prop (body req) ''message'' = Inr m \<Longrightarrow> truthy m \<Longrightarrow>
   endpoint env (text_request m) = Inr c \<Longrightarrow>
   post_message env req s =
     (Response 200
        (JObj [(''reply'', JStr (or_else (first_content c) ''No response generated.'')),
               (''timestamp'', JStr (now env))]),
      emit (GroqCreate (text_request m)) s)"
  by (simp add: post_message_def generateGroqResponse_Inr)

lemma post_analyze_no_file:
  "req_file req = None \<Longrightarrow>
   post_analyze env req s = (Response 400 (JObj [(''error'', JStr ''No image uploaded'')]), s)"
  by (simp add: post_analyze_def)

lemma post_analyze_throw:
  "req_file req = Some f \<Longrightarrow> get_prop (body req) ''prompt'' = Inl e \<Longrightarrow>
   post_analyze env req s =
     (Response 500 (JObj [(''error'', JStr ''Failed to analyze image'')]),
      console_error ''Vision route error:'' e s)"
  by (simp add: post_analyze_def)

lemma post_analyze_unreadable:
  "req_file req = Some f \<Longrightarrow> get_prop (body req) ''prompt'' = Inr p \<Longrightarrow>
   files s (path f) = None \<Longrightarrow>
   post_analyze env req s =
     (Response 500 (JObj [(''error'', JStr ''Failed to analyze image'')]),
      console_error ''Vision route error:'' (SystemError ''ENOENT'' (path f))
        (emit (ReadFileSync (path f)) s))"
  by (simp add: post_analyze_def encodeImageToBase64_None Let_def)

lemma post_analyze_fails:
  "req_file req = Some f \<Longrightarrow> get_prop (body req) ''prompt'' = Inr p \<Longrightarrow>
   files s (path f) = Some bytes \<Longrightarrow>
   endpoint env (vision_request (base64 bytes) (js_or p (JStr default_prompt))) = Inl e \<Longrightarrow>
   post_analyze env req s =
     (Response 500 (JObj [(''error'', JStr ''Failed to analyze image'')]),
      console_error ''Vision route error:'' (Error ''Failed to analyze image'')
        (console_error (cross_mark @ '' Vision API Error:'') e
           (emit (GroqCreate (vision_request (base64 bytes) (js_or p (JStr default_prompt))))
              (emit (ReadFileSync (path f)) s))))"
  by (simp add: post_analyze_def encodeImageToBase64_Some analyzeImage_Inl Let_def)

lemma post_analyze_success:
  "req_file req = Some f \<Longrightarrow> get_prop (body req) ''prompt'' = Inr p \<Longrightarrow>
   files s (path f) = Some bytes \<Longrightarrow>
   endpoint env (vision_request (base64 bytes) (js_or p (JStr default_prompt))) = Inr c \<Longrightarrow>
   post_analyze env req s =
     (Response 200
        (JObj [(''analysis'', JStr (or_else (first_content c) ''No analysis generated.'')),
               (''timestamp'', JStr (now env))]),
      emit (Unlink (path f))
        ((emit (GroqCreate (vision_request (base64 bytes) (js_or p (JStr default_prompt))))
            (emit (ReadFileSync (path f)) s))\<lparr>files := (files s)(path f := None)\<rparr>))"
  by (simp add: post_analyze_def encodeImageToBase64_Some analyzeImage_Inr unlink_Some Let_def)

section \<open>The encoding loses nothing\<close>

text \<open>
  Each byte of the input can be read back from the six-bit groups the encoder forms, the
  alphabet has 64 different characters and none of them is the padding character: so two
  byte sequences with the same encoding are the same, and the encoding has four characters
  for every three bytes begun.
\<close>

lemma m63: "(63::byte) = mask 6"
  by (simp add: mask_eq_exp_minus_1)

lemma m3: "(3::byte) = mask 2"
  by (simp add: mask_eq_exp_minus_1)

lemma m15: "(15::byte) = mask 4"
  by (simp add: mask_eq_exp_minus_1)

lemma lt8: "n < 8 \<Longrightarrow> n \<in> {0, 1, 2, 3, 4, 5, 6, 7 :: nat}"
  by auto

lemma rec_a:
  fixes a b :: byte
  shows "push_bit 2 (drop_bit 2 a AND 63) OR drop_bit 4 ((push_bit 4 (a AND 3) OR drop_bit 4 b) AND 63) = a"
  unfolding m63 m3
proof (rule bit_word_eqI)
  fix n assume "n < LENGTH(8)"
  then have "n < 8" by simp
  from lt8 [OF this] show "bit (push_bit 2 (drop_bit 2 a AND mask 6) OR
        drop_bit 4 ((push_bit 4 (a AND mask 2) OR drop_bit 4 b) AND mask 6)) n = bit a n"
    by (auto simp: bit_simps; simp add: numeral_2_eq_2 numeral_3_eq_3)
qed

lemma rec_b:
  fixes a b c :: byte
  shows "push_bit 4 ((push_bit 4 (a AND 3) OR drop_bit 4 b) AND 63)
         OR drop_bit 2 ((push_bit 2 (b AND 15) OR drop_bit 6 c) AND 63) = b"
  unfolding m63 m3 m15
proof (rule bit_word_eqI)
  fix n assume "n < LENGTH(8)"
  then have "n < 8" by simp
  from lt8 [OF this] show "bit (push_bit 4 ((push_bit 4 (a AND mask 2) OR drop_bit 4 b) AND mask 6) OR
        drop_bit 2 ((push_bit 2 (b AND mask 4) OR drop_bit 6 c) AND mask 6)) n = bit b n"
    by (auto simp: bit_simps)
qed

lemma rec_c:
  fixes b c :: byte
  shows "push_bit 6 ((push_bit 2 (b AND 15) OR drop_bit 6 c) AND 63) OR ((c AND 63) AND 63) = c"
  unfolding m63 m15
proof (rule bit_word_eqI)
  fix n assume "n < LENGTH(8)"
  then have "n < 8" by simp
  from lt8 [OF this] show "bit (push_bit 6 ((push_bit 2 (b AND mask 4) OR drop_bit 6 c) AND mask 6) OR
        ((c AND mask 6) AND mask 6)) n = bit c n"
    by (auto simp: bit_simps)
qed

lemma length_base64: "length (base64 bs) = 4 * ((length bs + 2) div 3)"
proof (induction bs rule: base64.induct)
  case (1 a b c rest)
  have "(length (a # b # c # rest) + 2) div 3 = Suc ((length rest + 2) div 3)"
    by simp
  with 1 show ?case by simp
qed simp_all


lemma unat_and_63: "unat ((x::byte) AND 63) < 64"
proof -
  have "x AND 63 \<le> 63"
    by (rule word_and_le1)
  then have "unat (x AND 63) \<le> unat (63 :: byte)"
    by (simp only: word_le_nat_alt)
  then show ?thesis by simp
qed

lemma b64_char_eqD:
  assumes "b64_char x = b64_char y"
  shows "x AND 63 = y AND 63"
proof -
  have len: "length b64_alphabet = 64" by (simp add: b64_alphabet_def)
  have "distinct b64_alphabet" by (simp add: b64_alphabet_def)
  with assms have "unat (x AND 63) = unat (y AND 63)"
    by (simp add: b64_char_def nth_eq_iff_index_eq len unat_and_63)
  then show ?thesis by (simp add: word_unat_eq_iff)
qed

lemma b64_char_not_pad: "b64_char x \<noteq> CHR ''=''"
proof -
  have len: "length b64_alphabet = 64" by (simp add: b64_alphabet_def)
  have "b64_char x \<in> set b64_alphabet"
    unfolding b64_char_def by (rule nth_mem) (simp add: len unat_and_63)
  moreover have "CHR ''='' \<notin> set b64_alphabet" by (simp add: b64_alphabet_def)
  ultimately show ?thesis by metis
qed

lemma block_inj:
  fixes a b c a' b' c' :: byte
  assumes "drop_bit 2 a AND 63 = drop_bit 2 a' AND 63"
    and "(push_bit 4 (a AND 3) OR drop_bit 4 b) AND 63 = (push_bit 4 (a' AND 3) OR drop_bit 4 b') AND 63"
    and "(push_bit 2 (b AND 15) OR drop_bit 6 c) AND 63 = (push_bit 2 (b' AND 15) OR drop_bit 6 c') AND 63"
    and "(c AND 63) AND 63 = (c' AND 63) AND 63"
  shows "a = a' \<and> b = b' \<and> c = c'"
proof -
  have "a = push_bit 2 (drop_bit 2 a AND 63)
              OR drop_bit 4 ((push_bit 4 (a AND 3) OR drop_bit 4 b) AND 63)"
    by (rule rec_a [symmetric])
  also have "\<dots> = push_bit 2 (drop_bit 2 a' AND 63)
              OR drop_bit 4 ((push_bit 4 (a' AND 3) OR drop_bit 4 b') AND 63)"
    by (simp only: assms)
  also have "\<dots> = a'" by (rule rec_a)
  finally have a: "a = a'" .
  have "b = push_bit 4 ((push_bit 4 (a AND 3) OR drop_bit 4 b) AND 63)
              OR drop_bit 2 ((push_bit 2 (b AND 15) OR drop_bit 6 c) AND 63)"
    by (rule rec_b [symmetric])
  also have "\<dots> = push_bit 4 ((push_bit 4 (a' AND 3) OR drop_bit 4 b') AND 63)
              OR drop_bit 2 ((push_bit 2 (b' AND 15) OR drop_bit 6 c') AND 63)"
    by (simp only: assms)
  also have "\<dots> = b'" by (rule rec_b)
  finally have b: "b = b'" .
  have "c = push_bit 6 ((push_bit 2 (b AND 15) OR drop_bit 6 c) AND 63) OR ((c AND 63) AND 63)"
    by (rule rec_c [symmetric])
  also have "\<dots> = push_bit 6 ((push_bit 2 (b' AND 15) OR drop_bit 6 c') AND 63)
              OR ((c' AND 63) AND 63)"
    by (simp only: assms)
  also have "\<dots> = c'" by (rule rec_c)
  finally have c: "c = c'" .
  from a b c show ?thesis by simp
qed

lemma base64_inj: "base64 xs = base64 ys \<Longrightarrow> xs = ys"
proof (induction xs arbitrary: ys rule: base64.induct)
  case (1 a b c rest)
  show ?case
  proof (cases ys rule: base64.cases)
    case (1 a' b' c' rest')
    with "1.prems" have eqs: "b64_char (drop_bit 2 a) = b64_char (drop_bit 2 a')"
      "b64_char (push_bit 4 (a AND 3) OR drop_bit 4 b) = b64_char (push_bit 4 (a' AND 3) OR drop_bit 4 b')"
      "b64_char (push_bit 2 (b AND 15) OR drop_bit 6 c) = b64_char (push_bit 2 (b' AND 15) OR drop_bit 6 c')"
      "b64_char (c AND 63) = b64_char (c' AND 63)"
      and r: "base64 rest = base64 rest'"
      by simp_all
    from block_inj [OF eqs [THEN b64_char_eqD]] "1.IH" [OF r] 1 show ?thesis by simp
  next
    case (2 a' b')
    with "1.prems" show ?thesis by (simp add: b64_char_not_pad)
  next
    case (3 a')
    with "1.prems" show ?thesis by (simp add: b64_char_not_pad)
  next
    case 4
    with "1.prems" show ?thesis by simp
  qed
next
  case (2 a b)
  show ?case
  proof (cases ys rule: base64.cases)
    case (1 a' b' c' rest')
    with "2.prems" show ?thesis by (simp add: b64_char_not_pad [symmetric])
  next
    case (2 a' b')
    with "2.prems" have eqs: "b64_char (drop_bit 2 a) = b64_char (drop_bit 2 a')"
      "b64_char (push_bit 4 (a AND 3) OR drop_bit 4 b) = b64_char (push_bit 4 (a' AND 3) OR drop_bit 4 b')"
      "b64_char (push_bit 2 (b AND 15)) = b64_char (push_bit 2 (b' AND 15))"
      by simp_all
    from block_inj [of a a' b b' 0 0] eqs [THEN b64_char_eqD] 2 show ?thesis by simp
  next
    case (3 a')
    with "2.prems" show ?thesis by (simp add: b64_char_not_pad)
  next
    case 4
    with "2.prems" show ?thesis by simp
  qed
next
  case (3 a)
  show ?case
  proof (cases ys rule: base64.cases)
    case (1 a' b' c' rest')
    with "3.prems" show ?thesis by (simp add: b64_char_not_pad [symmetric])
  next
    case (2 a' b')
    with "3.prems" show ?thesis by (simp add: b64_char_not_pad [symmetric])
  next
    case (3 a')
    with "3.prems" have eqs: "b64_char (drop_bit 2 a) = b64_char (drop_bit 2 a')"
      "b64_char (push_bit 4 (a AND 3)) = b64_char (push_bit 4 (a' AND 3))"
      by simp_all
    from block_inj [of a a' 0 0 0 0] eqs [THEN b64_char_eqD] 3 show ?thesis by simp
  next
    case 4
    with "3.prems" show ?thesis by simp
  qed
next
  case 4
  then show ?case by (cases ys rule: base64.cases) simp_all
qed

lemmas run_defs = post_message_def post_analyze_def generateGroqResponse_def analyzeImage_def
  encodeImageToBase64_def readFileSync_def unlink_def create_def js_or_def or_else_def
  first_content_def prompt_param_def emit_def console_error_def Let_def

section \<open>The claims\<close>

subsection \<open>C1: the upload after a failed vision request\<close>

text \<open>
  Claim C1 says that for every vision request with an image attached the temporary upload is
  deleted by the time the response is sent, whether the encoder and the vision client
  succeeded or failed. The route calls \<open>fs.unlink\<close> only after \<open>analyzeImage\<close> has
  returned; the \<open>catch\<close> branch sends the 500 and deletes nothing. At the request below (a
  PNG stored under \<open>uploads/3f2a\<close>, the endpoint refusing the call) the response is the
  generic 500, no deletion was asked for and the file is still there; with an endpoint that
  answers, the same request leaves no file.
\<close>

theorem upload_left_behind_when_model_fails:
  "fst (post_analyze env_down (upload_req (JObj [(''prompt'', JStr ''describe'')])) disk) =
     Response 500 (JObj [(''error'', JStr ''Failed to analyze image'')])
   \<and> unlinks (snd (post_analyze env_down (upload_req (JObj [(''prompt'', JStr ''describe'')])) disk))
        = []
   \<and> files (snd (post_analyze env_down (upload_req (JObj [(''prompt'', JStr ''describe'')])) disk))
        ''uploads/3f2a'' = Some png_bytes
   \<and> files (snd (post_analyze env_empty (upload_req (JObj [(''prompt'', JStr ''describe'')])) disk))
        ''uploads/3f2a'' = None"
  by (simp add: unlinks_def run_defs)

subsection \<open>C2: a failing model client\<close>

text \<open>
  Claim C2: on every request on which the model invocation client fails, the text route
  answers exactly 500 with the error "Failed to process your message" and the vision route
  exactly 500 with "Failed to analyze image"; the response does not depend on the error
  \<open>e\<close> of the call. The client is called on the text route when the message is truthy, and
  on the vision route when a file is attached and could be read.
\<close>

theorem inference_failure_is_generic:
  "(get_prop (body req) ''message'' = Inr m \<and> truthy m
      \<and> endpoint env (text_request m) = Inl e \<longrightarrow>
        fst (post_message env req s) =
          Response 500 (JObj [(''error'', JStr ''Failed to process your message'')]))
   \<and> (req_file req = Some f \<and> get_prop (body req) ''prompt'' = Inr p
      \<and> files s (path f) = Some bytes
      \<and> endpoint env (vision_request (base64 bytes) (js_or p (JStr default_prompt))) = Inl e \<longrightarrow>
        fst (post_analyze env req s) =
          Response 500 (JObj [(''error'', JStr ''Failed to analyze image'')]))"
  by (simp add: post_message_fails post_analyze_fails)

theorem inference_failure_is_generic_witness:
  "fst (post_message env_down (Request (JObj [(''message'', JStr ''hello'')]) None) no_disk) =
     Response 500 (JObj [(''error'', JStr ''Failed to process your message'')])
   \<and> fst (post_analyze env_down (upload_req (JObj [(''prompt'', JStr ''describe'')])) disk) =
     Response 500 (JObj [(''error'', JStr ''Failed to analyze image'')])"
  using inference_failure_is_generic [of "Request (JObj [(''message'', JStr ''hello'')]) None"
      "JStr ''hello''" env_down "APIError ''401 Invalid API Key''" no_disk]
    inference_failure_is_generic [of "upload_req (JObj [(''prompt'', JStr ''describe'')])"
      "JUndefined" env_down "APIError ''401 Invalid API Key''" disk "MulterFile ''uploads/3f2a''"
      "JStr ''describe''" png_bytes]
  by simp

subsection \<open>C3: a missing message\<close>

text \<open>
  Claim C3 says that every text request whose message field is absent, null or the empty
  string is answered exactly 400 with the error "Message is required". The handler reads
  the field by \<open>const { message } = req.body\<close> inside its \<open>try\<close>: when the request
  came with no body that a parser filled, \<open>req.body\<close> is \<open>undefined\<close>, the destructuring
  throws, and the \<open>catch\<close> answers 500 with "Failed to process your message". The message
  field of that request is absent, and the response is not the 400.
\<close>

theorem unparsed_body_counterexample:
  "message_absent (Request JUndefined None)
   \<and> fst (post_message env_empty (Request JUndefined None) no_disk) =
       Response 500 (JObj [(''error'', JStr ''Failed to process your message'')])
   \<and> fst (post_message env_empty (Request JUndefined None) no_disk) \<noteq>
       Response 400 (JObj [(''error'', JStr ''Message is required'')])"
  by (simp add: message_absent_def post_message_def)

text \<open>
  Claim C3 as the code has it: when the body of a text request was parsed (\<open>req.body\<close> is
  neither \<open>undefined\<close> nor \<open>null\<close>, which is when reading a property of it returns, see
  \<open>get_prop_Inr_iff\<close>) and its message field is absent, null or the empty string, the
  response is exactly 400 with the error "Message is required", and the model client is not
  called: the state, and with it the trace, is the one the handler started in.
\<close>

theorem message_required:
  assumes "get_prop (body req) ''message'' = Inr m"
    and "m = JUndefined \<or> m = JNull \<or> m = JStr []"
  shows "post_message env req s =
           (Response 400 (JObj [(''error'', JStr ''Message is required'')]), s)
         \<and> groq_calls (snd (post_message env req s)) = groq_calls s"
proof -
  from assms(2) have "\<not> truthy m" by auto
  with assms(1) show ?thesis by (simp add: post_message_reject)
qed

theorem message_required_witness:
  "post_message env_empty (Request (JObj [(''message'', JStr [])]) None) no_disk =
     (Response 400 (JObj [(''error'', JStr ''Message is required'')]), no_disk)
   \<and> post_message env_empty (Request (JObj [(''other'', JStr ''hi'')]) None) no_disk =
     (Response 400 (JObj [(''error'', JStr ''Message is required'')]), no_disk)
   \<and> post_message env_empty (Request (JObj [(''message'', JNull)]) None) no_disk =
     (Response 400 (JObj [(''error'', JStr ''Message is required'')]), no_disk)"
  using
    message_required [of "Request (JObj [(''message'', JStr [])]) None" "JStr []"
      env_empty no_disk]
    message_required [of "Request (JObj [(''other'', JStr ''hi'')]) None" "JUndefined"
      env_empty no_disk]
    message_required [of "Request (JObj [(''message'', JNull)]) None" "JNull"
      env_empty no_disk]
  by simp

subsection \<open>C4: no image attached\<close>

text \<open>
  Claim C4: a vision request with no image file attached is answered exactly 400 with the
  error "No image uploaded"; neither the encoder nor the vision client is invoked, the
  handler returning the state it started in.
\<close>

theorem no_image_uploaded:
  assumes "req_file req = None"
  shows "post_analyze env req s =
           (Response 400 (JObj [(''error'', JStr ''No image uploaded'')]), s)
         \<and> encoder_reads (snd (post_analyze env req s)) = encoder_reads s
         \<and> groq_calls (snd (post_analyze env req s)) = groq_calls s"
  using assms by (simp add: post_analyze_no_file)

theorem no_image_uploaded_witness:
  "post_analyze env_empty (Request (JObj [(''prompt'', JStr ''describe'')]) None) disk =
     (Response 400 (JObj [(''error'', JStr ''No image uploaded'')]), disk)"
  using no_image_uploaded [of "Request (JObj [(''prompt'', JStr ''describe'')]) None"
      env_empty disk]
  by simp

subsection \<open>C5: the image reference\<close>

text \<open>
  Claim C5: for every base64 payload \<open>b\<close> handed to the vision client, the image reference
  of the request it sends is exactly \<open>data:image/jpeg;base64,\<close> followed by \<open>b\<close>. Through
  the route, the payload is the encoding of the bytes of the upload, whatever they are: the
  PNG of the example is sent as \<open>image/jpeg\<close>.
\<close>

theorem image_reference_is_jpeg_data_uri:
  "sent_image_urls (snd (analyzeImage env b p s)) =
     sent_image_urls s @ [''data:image/jpeg;base64,'' @ b]
   \<and> (req_file req = Some f \<and> get_prop (body req) ''prompt'' = Inr q
        \<and> files s (path f) = Some bytes \<longrightarrow>
      sent_image_urls (snd (post_analyze env req s)) =
        sent_image_urls s @ [''data:image/jpeg;base64,'' @ base64 bytes])"
proof (intro conjI impI)
  show "sent_image_urls (snd (analyzeImage env b p s)) =
     sent_image_urls s @ [''data:image/jpeg;base64,'' @ b]"
    by (cases "endpoint env (vision_request b (prompt_param p))")
       (simp_all add: analyzeImage_Inl analyzeImage_Inr sent_image_urls_def)
next
  assume "req_file req = Some f \<and> get_prop (body req) ''prompt'' = Inr q
        \<and> files s (path f) = Some bytes"
  then have h: "req_file req = Some f" "get_prop (body req) ''prompt'' = Inr q"
    "files s (path f) = Some bytes" by simp_all
  show "sent_image_urls (snd (post_analyze env req s)) =
        sent_image_urls s @ [''data:image/jpeg;base64,'' @ base64 bytes]"
    by (cases "endpoint env (vision_request (base64 bytes) (js_or q (JStr default_prompt)))")
       (simp_all add: post_analyze_fails [OF h] post_analyze_success [OF h] sent_image_urls_def)
qed

theorem image_reference_is_jpeg_data_uri_witness:
  "sent_image_urls
     (snd (post_analyze env_empty (upload_req (JObj [(''prompt'', JStr ''describe'')])) disk)) =
     [''data:image/jpeg;base64,iVBORw0KGgo='']"
  using image_reference_is_jpeg_data_uri [of env_empty "[]" JUndefined disk
      "upload_req (JObj [(''prompt'', JStr ''describe'')])" "MulterFile ''uploads/3f2a''"
      "JStr ''describe''" png_bytes]
  by (simp add: sent_image_urls_def b64_char_def b64_alphabet_def)

subsection \<open>C6: a reply without candidate content\<close>

lemma no_candidate_first_content: "no_candidate_content c \<Longrightarrow> first_content c = None"
  by (auto simp: no_candidate_content_def first_content_def split: list.splits option.splits)

text \<open>
  Claim C6: when the reply of the endpoint has no candidate content (no choices, or a first
  choice without message content), the text client returns the fixed string
  "No response generated." and the vision client the fixed string "No analysis generated.";
  neither is empty.
\<close>

theorem placeholder_when_no_content:
  assumes "no_candidate_content c"
  shows "(endpoint env (text_request p) = Inr c \<longrightarrow>
           fst (generateGroqResponse env p s) = Inr ''No response generated.'')
       \<and> (endpoint env (vision_request b (prompt_param p)) = Inr c \<longrightarrow>
           fst (analyzeImage env b p s) = Inr ''No analysis generated.'')
       \<and> ''No response generated.'' \<noteq> [] \<and> ''No analysis generated.'' \<noteq> []"
  using no_candidate_first_content [OF assms]
  by (simp add: generateGroqResponse_Inr analyzeImage_Inr or_else_def)

theorem placeholder_when_no_content_witness:
  "fst (generateGroqResponse env_empty (JStr ''hello'') no_disk) = Inr ''No response generated.''
   \<and> fst (analyzeImage env_empty ''iVBORw0KGgo='' (JStr ''describe'') no_disk) =
       Inr ''No analysis generated.''"
  using placeholder_when_no_content [of "Completion []" env_empty "JStr ''hello''" no_disk
      "''iVBORw0KGgo=''"]
    placeholder_when_no_content [of "Completion []" env_empty "JStr ''describe''" no_disk
      "''iVBORw0KGgo=''"]
  by (simp add: no_candidate_content_def prompt_param_def)

subsection \<open>C7: the prompt of a vision request\<close>

text \<open>
  Claim C7 says that a prompt field that is absent or blank is replaced by the fixed string
  "What's in this image?", and that a non-blank prompt is used unchanged. The route
  computes \<open>req.body.prompt || 'What\'s in this image?'\<close>: the default replaces a falsy
  prompt only, and a string is falsy only when it is empty. For a prompt of one space, which
  is blank, the request sent to the model carries that space, not the default.
\<close>

theorem blank_prompt_counterexample:
  "blank '' ''
   \<and> get_prop (body (upload_req (JObj [(''prompt'', JStr '' '')]))) ''prompt'' = Inr (JStr '' '')
   \<and> sent_prompts (snd (post_analyze env_empty (upload_req (JObj [(''prompt'', JStr '' '')])) disk))
       = [JStr '' '']
   \<and> JStr '' '' \<noteq> JStr ''What's in this image?''"
  by (simp add: blank_def is_space_def sent_prompts_def run_defs)

text \<open>
  Claim C7 as the code has it: for a vision request whose upload can be read, a prompt field
  that is absent or the empty string is replaced by "What's in this image?"; every
  non-empty prompt string, one of white space only included, and every other truthy value of
  the field is sent to the model unchanged.
\<close>

theorem prompt_defaulting:
  assumes "req_file req = Some f"
    and "get_prop (body req) ''prompt'' = Inr p"
    and "files s (path f) = Some bytes"
  shows "default_prompt = ''What's in this image?''
       \<and> (p = JUndefined \<or> p = JStr [] \<longrightarrow>
            sent_prompts (snd (post_analyze env req s)) = sent_prompts s @ [JStr default_prompt])
       \<and> (\<forall>t. p = JStr t \<and> t \<noteq> [] \<longrightarrow>
            sent_prompts (snd (post_analyze env req s)) = sent_prompts s @ [JStr t])
       \<and> (truthy p \<longrightarrow>
            sent_prompts (snd (post_analyze env req s)) = sent_prompts s @ [p])"
proof -
  have sent: "sent_prompts (snd (post_analyze env req s)) =
      sent_prompts s @ [js_or p (JStr default_prompt)]"
    by (cases "endpoint env (vision_request (base64 bytes) (js_or p (JStr default_prompt)))")
       (simp_all add: post_analyze_fails [OF assms] post_analyze_success [OF assms]
          sent_prompts_def)
  show ?thesis
    by (auto simp: sent js_or_def default_prompt_def)
qed

theorem prompt_defaulting_witness:
  "sent_prompts (snd (post_analyze env_empty (upload_req (JObj [])) disk)) =
       [JStr ''What's in this image?'']
   \<and> sent_prompts (snd (post_analyze env_empty (upload_req (JObj [(''prompt'', JStr [])])) disk)) =
       [JStr ''What's in this image?'']
   \<and> sent_prompts
        (snd (post_analyze env_empty (upload_req (JObj [(''prompt'', JStr ''describe'')])) disk)) =
       [JStr ''describe'']
   \<and> sent_prompts
        (snd (post_analyze env_empty (upload_req (JObj [(''prompt'', JStr '' '')])) disk)) =
       [JStr '' '']"
  using prompt_defaulting [of "upload_req (JObj [])" "MulterFile ''uploads/3f2a''" JUndefined
      disk png_bytes env_empty]
    prompt_defaulting [of "upload_req (JObj [(''prompt'', JStr [])])" "MulterFile ''uploads/3f2a''"
      "JStr []" disk png_bytes env_empty]
    prompt_defaulting [of "upload_req (JObj [(''prompt'', JStr ''describe'')])"
      "MulterFile ''uploads/3f2a''" "JStr ''describe''" disk png_bytes env_empty]
    prompt_defaulting [of "upload_req (JObj [(''prompt'', JStr '' '')])"
      "MulterFile ''uploads/3f2a''" "JStr '' ''" disk png_bytes env_empty]
  by (simp add: sent_prompts_def)

subsection \<open>C8: the encoder\<close>

text \<open>
  Claim C8: for a path \<open>p\<close> whose file can be read, \<open>encodeImageToBase64\<close> returns the
  base64 encoding of all the bytes of the file: four characters for every three bytes begun,
  and no other byte sequence has that encoding. The encoder is an ordinary call inside the
  handler (\<open>readFileSync\<close>, no callback and no promise), so its result is there before the
  next step starts. When the file cannot be read, the encoder hands on the error of the file
  system as it is; it reaches the \<open>catch\<close> of the route, which logs it and answers with the
  generic 500 of the vision route, the model client not having been called.
\<close>

theorem encode_whole_file_or_propagate:
  "(files s p = Some bytes \<longrightarrow>
      fst (encodeImageToBase64 p s) = Inr (base64 bytes)
      \<and> length (base64 bytes) = 4 * ((length bytes + 2) div 3)
      \<and> (\<forall>other. base64 other = base64 bytes \<longrightarrow> other = bytes))
   \<and> (fst (readFileSync p s) = Inl e \<longrightarrow>
        fst (encodeImageToBase64 p s) = Inl e
        \<and> (req_file req = Some (MulterFile p) \<and> get_prop (body req) ''prompt'' = Inr q \<longrightarrow>
             fst (post_analyze env req s) =
               Response 500 (JObj [(''error'', JStr ''Failed to analyze image'')])
             \<and> groq_calls (snd (post_analyze env req s)) = groq_calls s
             \<and> ConsoleError ''Vision route error:'' e
                 \<in> set (trace (snd (post_analyze env req s)))))"
proof (intro conjI impI allI)
  assume "files s p = Some bytes"
  then show "fst (encodeImageToBase64 p s) = Inr (base64 bytes)"
    by (simp add: encodeImageToBase64_Some)
next
  show "length (base64 bytes) = 4 * ((length bytes + 2) div 3)"
    by (rule length_base64)
next
  fix other
  assume "base64 other = base64 bytes"
  then show "other = bytes" by (rule base64_inj)
next
  assume r: "fst (readFileSync p s) = Inl e"
  then show "fst (encodeImageToBase64 p s) = Inl e"
    by (simp add: encodeImageToBase64_def readFileSync_def split: option.splits)
next
  assume r: "fst (readFileSync p s) = Inl e"
    and q: "req_file req = Some (MulterFile p) \<and> get_prop (body req) ''prompt'' = Inr q"
  from r have n: "files s (path (MulterFile p)) = None" and e: "e = SystemError ''ENOENT'' p"
    by (auto simp: readFileSync_def split: option.splits)
  from q have f: "req_file req = Some (MulterFile p)"
    and g: "get_prop (body req) ''prompt'' = Inr q"
    by simp_all
  note run = post_analyze_unreadable [OF f g n]
  show "fst (post_analyze env req s) =
          Response 500 (JObj [(''error'', JStr ''Failed to analyze image'')])"
    by (simp add: run)
  show "groq_calls (snd (post_analyze env req s)) = groq_calls s"
    by (simp add: run groq_calls_def)
  show "ConsoleError ''Vision route error:'' e \<in> set (trace (snd (post_analyze env req s)))"
    by (simp add: run e)
qed

theorem encode_whole_file_or_propagate_witness:
  "fst (encodeImageToBase64 ''uploads/3f2a'' disk) = Inr ''iVBORw0KGgo=''
   \<and> fst (encodeImageToBase64 ''uploads/3f2a'' no_disk) =
        Inl (SystemError ''ENOENT'' ''uploads/3f2a'')
   \<and> fst (post_analyze env_empty (upload_req (JObj [])) no_disk) =
        Response 500 (JObj [(''error'', JStr ''Failed to analyze image'')])"
  using encode_whole_file_or_propagate [of disk "''uploads/3f2a''" png_bytes
      "SystemError ''ENOENT'' ''uploads/3f2a''" "upload_req (JObj [])" JUndefined env_empty]
    encode_whole_file_or_propagate [of no_disk "''uploads/3f2a''" png_bytes
      "SystemError ''ENOENT'' ''uploads/3f2a''" "upload_req (JObj [])" JUndefined env_empty]
  by (simp add: readFileSync_def b64_char_def b64_alphabet_def)

subsection \<open>C9: no empty result text\<close>

lemma generateGroqResponse_nonempty: "fst (generateGroqResponse env p s) \<noteq> Inr []"
  by (cases "endpoint env (text_request p)")
     (simp_all add: generateGroqResponse_Inl generateGroqResponse_Inr or_else_nonempty)

lemma analyzeImage_nonempty: "fst (analyzeImage env b p s) \<noteq> Inr []"
  by (cases "endpoint env (vision_request b (prompt_param p))")
     (simp_all add: analyzeImage_Inl analyzeImage_Inr or_else_nonempty)

lemma post_message_200:
  assumes "status (fst (post_message env req s)) = 200"
  shows "\<exists>t. t \<noteq> [] \<and> json (fst (post_message env req s)) =
              JObj [(''reply'', JStr t), (''timestamp'', JStr (now env))]"
proof (cases "get_prop (body req) ''message''")
  case (Inl e)
  with assms show ?thesis by (simp add: post_message_throw)
next
  case (Inr m)
  show ?thesis
  proof (cases "truthy m")
    case False
    with Inr assms show ?thesis by (simp add: post_message_reject)
  next
    case True
    show ?thesis
    proof (cases "endpoint env (text_request m)")
      case (Inl e)
      with Inr True assms show ?thesis by (simp add: post_message_fails)
    next
      case r: (Inr c)
      show ?thesis
        by (simp add: post_message_success [OF Inr True r] or_else_nonempty)
    qed
  qed
qed

lemma post_analyze_200:
  assumes "status (fst (post_analyze env req s)) = 200"
  shows "\<exists>t. t \<noteq> [] \<and> json (fst (post_analyze env req s)) =
              JObj [(''analysis'', JStr t), (''timestamp'', JStr (now env))]"
proof (cases "req_file req")
  case None
  with assms show ?thesis by (simp add: post_analyze_no_file)
next
  case (Some f)
  show ?thesis
  proof (cases "get_prop (body req) ''prompt''")
    case (Inl e)
    with Some assms show ?thesis by (simp add: post_analyze_throw)
  next
    case (Inr p)
    show ?thesis
    proof (cases "files s (path f)")
      case None
      with Some Inr assms show ?thesis by (simp add: post_analyze_unreadable)
    next
      case fb: (Some bytes)
      show ?thesis
      proof (cases "endpoint env (vision_request (base64 bytes) (js_or p (JStr default_prompt)))")
        case (Inl e)
        with Some Inr fb assms show ?thesis by (simp add: post_analyze_fails)
      next
        case r: (Inr c)
        show ?thesis
          by (simp add: post_analyze_success [OF Some Inr fb r] or_else_nonempty)
      qed
    qed
  qed
qed

text \<open>
  Claim C9: the text returned by either model client is never the empty string. A first
  choice whose content is the empty string (there, but empty) gives the placeholder of the
  client, as a missing one does; so the reply of every 200 of the text route and the analysis of
  every 200 of the vision route is a non-empty string.
\<close>

theorem result_text_never_empty:
  "fst (generateGroqResponse env p s) \<noteq> Inr []
   \<and> fst (analyzeImage env b p s) \<noteq> Inr []
   \<and> (first_content c = Some [] \<longrightarrow>
        (endpoint env (text_request p) = Inr c \<longrightarrow>
           fst (generateGroqResponse env p s) = Inr ''No response generated.'')
        \<and> (endpoint env (vision_request b (prompt_param p)) = Inr c \<longrightarrow>
           fst (analyzeImage env b p s) = Inr ''No analysis generated.''))
   \<and> (status (fst (post_message env req s)) = 200 \<longrightarrow>
        (\<exists>t. t \<noteq> [] \<and> json (fst (post_message env req s)) =
              JObj [(''reply'', JStr t), (''timestamp'', JStr (now env))]))
   \<and> (status (fst (post_analyze env req s)) = 200 \<longrightarrow>
        (\<exists>t. t \<noteq> [] \<and> json (fst (post_analyze env req s)) =
              JObj [(''analysis'', JStr t), (''timestamp'', JStr (now env))]))"
  by (simp add: generateGroqResponse_nonempty analyzeImage_nonempty post_message_200
      post_analyze_200 generateGroqResponse_Inr analyzeImage_Inr or_else_def)

theorem result_text_never_empty_witness:
  "fst (generateGroqResponse env_blank_reply (JStr ''hello'') no_disk) =
      Inr ''No response generated.''
   \<and> fst (analyzeImage env_blank_reply ''iVBORw0KGgo='' (JStr ''describe'') no_disk) =
      Inr ''No analysis generated.''
   \<and> (\<exists>t. t \<noteq> [] \<and>
        json (fst (post_message env_blank_reply
           (Request (JObj [(''message'', JStr ''hello'')]) None) no_disk)) =
          JObj [(''reply'', JStr t), (''timestamp'', JStr stamp)])
   \<and> (\<exists>t. t \<noteq> [] \<and>
        json (fst (post_analyze env_blank_reply
           (upload_req (JObj [(''prompt'', JStr ''describe'')])) disk)) =
          JObj [(''analysis'', JStr t), (''timestamp'', JStr stamp)])"
  using result_text_never_empty [of env_blank_reply "JStr ''hello''" no_disk "''iVBORw0KGgo=''"
      "Completion [Choice (Some (ChoiceMessage (Some [])))]"
      "Request (JObj [(''message'', JStr ''hello'')]) None"]
    result_text_never_empty [of env_blank_reply "JStr ''describe''" no_disk "''iVBORw0KGgo=''"
      "Completion [Choice (Some (ChoiceMessage (Some [])))]"
      "Request (JObj [(''message'', JStr ''hello'')]) None"]
    result_text_never_empty [of env_blank_reply "JStr ''describe''" disk "''iVBORw0KGgo=''"
      "Completion [Choice (Some (ChoiceMessage (Some [])))]"
      "upload_req (JObj [(''prompt'', JStr ''describe'')])"]
  by (simp add: run_defs)

subsection \<open>C10: validation by truthiness\<close>

text \<open>
  Claim C10 says that the text route decides on the truthiness of the message field alone,
  every falsy value, an absent field among them, being answered 400 with "Message is
  required". For a request without a parsed body the field is absent and its value would be
  the falsy \<open>undefined\<close>, but the handler does not get as far as the test: reading the field
  throws, the response is the 500 of the \<open>catch\<close>, and the model client is not called.
\<close>

theorem absent_message_without_body_counterexample:
  "message_absent (Request JUndefined None)
   \<and> \<not> truthy JUndefined
   \<and> status (fst (post_message env_down (Request JUndefined None) no_disk)) = 500
   \<and> json (fst (post_message env_down (Request JUndefined None) no_disk)) \<noteq>
       JObj [(''error'', JStr ''Message is required'')]
   \<and> groq_calls (snd (post_message env_down (Request JUndefined None) no_disk)) = []"
  by (simp add: message_absent_def post_message_def groq_calls_def)

text \<open>
  Claim C10 as the code has it: when the body of a text request was parsed (reading its
  message field returns a value \<open>m\<close>, \<open>undefined\<close> for an absent field), the route decides
  on the truthiness of \<open>m\<close> alone. The falsy values are \<open>undefined\<close>, \<open>null\<close>, the empty
  string, \<open>false\<close>, \<open>NaN\<close> and the two zeros; each is answered 400 with "Message is
  required" and nothing else happens. Every truthy value, of whatever type (a number, an
  object, an array, a non-empty string), passes: the response is not the 400, and the model
  client is called once, with that value as the content of the message, no check of its type
  having been made.
\<close>

theorem truthiness_decides:
  assumes "get_prop (body req) ''message'' = Inr m"
  shows "(\<not> truthy m) =
           (m \<in> {JUndefined, JNull, JStr [], JBool False, JNum NaN, JNum NegZero, JNum (Finite 0)})
       \<and> (\<not> truthy m \<longrightarrow>
            post_message env req s =
              (Response 400 (JObj [(''error'', JStr ''Message is required'')]), s))
       \<and> (truthy m \<longrightarrow>
            status (fst (post_message env req s)) \<noteq> 400
            \<and> groq_calls (snd (post_message env req s)) =
                groq_calls s @ [GroqCreate (text_request m)]
            \<and> sent_prompts (snd (post_message env req s)) = sent_prompts s @ [m])"
proof (intro conjI impI)
  show "(\<not> truthy m) =
          (m \<in> {JUndefined, JNull, JStr [], JBool False, JNum NaN, JNum NegZero, JNum (Finite 0)})"
    by (rule falsy_iff)
next
  assume "\<not> truthy m"
  with assms show "post_message env req s =
      (Response 400 (JObj [(''error'', JStr ''Message is required'')]), s)"
    by (rule post_message_reject)
next
  assume t: "truthy m"
  show "status (fst (post_message env req s)) \<noteq> 400"
    by (cases "endpoint env (text_request m)")
       (simp_all add: post_message_fails [OF assms t] post_message_success [OF assms t])
  show "groq_calls (snd (post_message env req s)) = groq_calls s @ [GroqCreate (text_request m)]"
    by (cases "endpoint env (text_request m)")
       (simp_all add: post_message_fails [OF assms t] post_message_success [OF assms t]
          groq_calls_def)
  show "sent_prompts (snd (post_message env req s)) = sent_prompts s @ [m]"
    by (cases "endpoint env (text_request m)")
       (simp_all add: post_message_fails [OF assms t] post_message_success [OF assms t]
          sent_prompts_def)
qed

theorem truthiness_decides_witness:
  "sent_prompts (snd (post_message env_empty
      (Request (JObj [(''message'', JNum (Finite 42))]) None) no_disk)) = [JNum (Finite 42)]
   \<and> sent_prompts (snd (post_message env_empty
      (Request (JObj [(''message'', JArr [])]) None) no_disk)) = [JArr []]
   \<and> sent_prompts (snd (post_message env_empty
      (Request (JObj [(''message'', JObj [(''a'', JNull)])]) None) no_disk)) =
        [JObj [(''a'', JNull)]]
   \<and> fst (post_message env_empty
      (Request (JObj [(''message'', JNum (Finite 0))]) None) no_disk) =
      Response 400 (JObj [(''error'', JStr ''Message is required'')])
   \<and> fst (post_message env_empty
      (Request (JObj [(''message'', JBool False)]) None) no_disk) =
      Response 400 (JObj [(''error'', JStr ''Message is required'')])"
  using
    truthiness_decides [of "Request (JObj [(''message'', JNum (Finite 42))]) None"
      "JNum (Finite 42)" env_empty no_disk]
    truthiness_decides [of "Request (JObj [(''message'', JArr [])]) None"
      "JArr []" env_empty no_disk]
    truthiness_decides [of "Request (JObj [(''message'', JObj [(''a'', JNull)])]) None"
      "JObj [(''a'', JNull)]" env_empty no_disk]
    truthiness_decides [of "Request (JObj [(''message'', JNum (Finite 0))]) None"
      "JNum (Finite 0)" env_empty no_disk]
    truthiness_decides [of "Request (JObj [(''message'', JBool False)]) None"
      "JBool False" env_empty no_disk]
  by (simp add: sent_prompts_def)

end
